theory Spec2Isabelle
  imports Complex_Main "HOL-Library.AList"
begin

section \<open>The escrow engine of escrow.js and its webhook wrapper\<close>

text \<open>
  A shallow embedding of class \<open>EscrowSystem\<close> and of \<open>EscrowWithWebhooks.dispute\<close>.
  The in-memory object \<open>this.escrows\<close> is an association list in insertion order, the
  file written by \<open>saveState\<close> is a second copy of it, \<open>Date.now()\<close> is a clock that
  the engine reads (the n-th reading of a run is \<open>clk n\<close>), and every \<open>throw\<close> is an
  error value returned together with the state the engine is left in, since a JavaScript
  exception does not undo the assignments made before it.
  Times are integer milliseconds; amounts are rationals (the engine stores an amount and never
  computes with it).
\<close>

subsection \<open>JavaScript values that the engine tests for truthiness\<close>

datatype jsval = JUndefined | JNull | JBool bool | JNum int | JStr string

fun truthy :: "jsval \<Rightarrow> bool" where
  "truthy JUndefined = False"
| "truthy JNull = False"
| "truthy (JBool b) = b"
| "truthy (JNum n) = (n \<noteq> 0)"
| "truthy (JStr s) = (s \<noteq> [])"

text \<open>An argument that may be missing (\<open>undefined\<close>), \<open>null\<close> or an object.\<close>

datatype 'a jsarg = Undefined | Null | Obj 'a

text \<open>\<open>x || d\<close> on a string that may be undefined: the empty string is falsy too.\<close>

fun or_else :: "string option \<Rightarrow> string \<Rightarrow> string" where
  "or_else None d = d"
| "or_else (Some x) d = (if x = [] then d else x)"

fun or_null :: "string option \<Rightarrow> string option" where
  "or_null None = None"
| "or_null (Some x) = (if x = [] then None else Some x)"

text \<open>A parameter with a default value: the default replaces \<open>undefined\<close> only.\<close>

fun default_to :: "string option \<Rightarrow> string \<Rightarrow> string" where
  "default_to None d = d"
| "default_to (Some x) d = x"

subsection \<open>The escrow record\<close>

datatype escrow_state = Pending | Funded | Locked | Released | Refunded | Disputed

record conditions =
  requiresApproval :: jsval
  requiresDelivery :: jsval
  requiresArbiter :: jsval
  requiresClientConfirmation :: jsval

record timeline =
  created :: int
  funded :: "int option"
  locked :: "int option"
  released :: "int option"
  refunded :: "int option"
  disputed :: "int option"

record delivery_proof =
  submittedBy :: string
  timestamp :: int
  data :: jsval
  signature :: "string option"

record dispute_reason =
  disputerId :: string
  reason :: "string option"
  disputeTimestamp :: int

record metadata =
  releaseReason :: "string option"
  refundReason :: "string option"
  arbiter :: "string option"

record escrow =
  id_field :: string
  payer :: string
  payee :: string
  amount :: rat
  purpose :: string
  conditions :: conditions
  state :: escrow_state
  timeline :: timeline
  timeout :: "int option"
  approvals :: "string list"
  deliveryProof :: "delivery_proof option"
  disputeReason :: "dispute_reason option"
  txHash :: "string option"
  metadata :: metadata

subsection \<open>Errors, the engine's state, the clock\<close>

text \<open>One constructor for each \<open>throw new Error(...)\<close> of the class, carrying the state that
  the message prints; \<open>TypeError\<close> is what reading a property of \<open>null\<close> or \<open>undefined\<close>
  raises.\<close>

datatype error =
    Escrow_not_found
  | Cannot_fund escrow_state
  | Cannot_approve escrow_state
  | Cannot_submit_delivery escrow_state
  | Cannot_release escrow_state
  | Delivery_proof_required
  | Cannot_refund escrow_state
  | Cannot_dispute escrow_state
  | Escrow_not_in_disputed_state
  | Invalid_dispute_resolution string
  | TypeError

record system =
  escrows :: "(string \<times> escrow) list"
  storeFile :: "(string \<times> escrow) list"
  ticks :: nat

type_synonym clock = "nat \<Rightarrow> int"

type_synonym 'a result = "(error + 'a) \<times> system"

definition Date_now :: "clock \<Rightarrow> system \<Rightarrow> int \<times> system" where
  "Date_now clk s = (clk (ticks s), s\<lparr>ticks := Suc (ticks s)\<rparr>)"

definition saveState :: "system \<Rightarrow> system" where
  "saveState s = s\<lparr>storeFile := escrows s\<rparr>"

text \<open>\<open>this.escrows[escrowId]\<close>, and the assignment to it. Writing the fields of the object
  that \<open>this.escrows[escrowId]\<close> refers to is the same assignment: the key keeps its place.\<close>

definition lookup :: "system \<Rightarrow> string \<Rightarrow> escrow option" where
  "lookup s escrowId = map_of (escrows s) escrowId"

definition put :: "string \<Rightarrow> escrow \<Rightarrow> system \<Rightarrow> system" where
  "put escrowId e s = s\<lparr>escrows := AList.update escrowId e (escrows s)\<rparr>"

subsection \<open>create\<close>

record condition_params =
  p_requiresApproval :: "jsval option"
  p_requiresDelivery :: "jsval option"
  p_requiresArbiter :: "jsval option"
  p_requiresClientConfirmation :: "jsval option"

record create_params =
  c_payer :: string
  c_payee :: string
  c_amount :: rat
  c_purpose :: string
  c_conditions :: "condition_params jsarg"
  c_timeoutMinutes :: "int option"

text \<open>The stored conditions: the three computed defaults, then \<open>...conditions\<close>, which
  overwrites each of them with the caller's own value whenever the caller's object has the
  key (\<open>None\<close> is a key that is absent).\<close>

definition stored_conditions :: "condition_params \<Rightarrow> conditions" where
  "stored_conditions c =
     \<lparr> requiresApproval = (case p_requiresApproval c of None \<Rightarrow> JBool True | Some v \<Rightarrow> v),
       requiresDelivery = (case p_requiresDelivery c of None \<Rightarrow> JBool False | Some v \<Rightarrow> v),
       requiresArbiter = (case p_requiresArbiter c of None \<Rightarrow> JBool False | Some v \<Rightarrow> v),
       requiresClientConfirmation =
         (case p_requiresClientConfirmation c of None \<Rightarrow> JUndefined | Some v \<Rightarrow> v) \<rparr>"

definition no_conditions :: condition_params where
  "no_conditions =
     \<lparr> p_requiresApproval = None, p_requiresDelivery = None, p_requiresArbiter = None,
       p_requiresClientConfirmation = None \<rparr>"

definition new_escrow :: "string \<Rightarrow> int \<Rightarrow> create_params \<Rightarrow> condition_params \<Rightarrow> escrow" where
  "new_escrow escrowId now p c =
     \<lparr> id_field = escrowId, payer = c_payer p, payee = c_payee p, amount = c_amount p,
       purpose = c_purpose p,
       conditions = stored_conditions c,
       state = Pending,
       timeline = \<lparr> created = now, funded = None, locked = None, released = None,
                    refunded = None, disputed = None \<rparr>,
       timeout = (case c_timeoutMinutes p of
                    None \<Rightarrow> None
                  | Some m \<Rightarrow> if m \<noteq> 0 then Some (now + m * 60 * 1000) else None),
       approvals = [],
       deliveryProof = None,
       disputeReason = None,
       txHash = None,
       metadata = \<lparr> releaseReason = None, refundReason = None, arbiter = None \<rparr> \<rparr>"

text \<open>\<open>hex\<close> is what \<open>crypto.randomBytes(16).toString('hex')\<close> returns in this call.\<close>

definition create :: "clock \<Rightarrow> string \<Rightarrow> create_params \<Rightarrow> system \<Rightarrow> escrow result" where
  "create clk hex p s =
     (let escrowId = ''esc_'' @ hex;
          (now, s1) = Date_now clk s
      in case c_conditions p of
           Null \<Rightarrow> (Inl TypeError, s1)
         | Undefined \<Rightarrow>
             (let e = new_escrow escrowId now p no_conditions
              in (Inr e, saveState (put escrowId e s1)))
         | Obj c \<Rightarrow>
             (let e = new_escrow escrowId now p c
              in (Inr e, saveState (put escrowId e s1))))"

subsection \<open>fund and approve\<close>

definition fund :: "clock \<Rightarrow> string \<Rightarrow> string \<Rightarrow> system \<Rightarrow> escrow result" where
  "fund clk escrowId tx s =
     (case lookup s escrowId of
        None \<Rightarrow> (Inl Escrow_not_found, s)
      | Some e \<Rightarrow>
          if state e \<noteq> Pending then (Inl (Cannot_fund (state e)), s)
          else
            (let (t1, s1) = Date_now clk s;
                 e1 = e\<lparr>state := Funded, timeline := (timeline e)\<lparr>funded := Some t1\<rparr>,
                        txHash := Some tx\<rparr>
             in if \<not> truthy (requiresApproval (conditions e1)) then
                  (let (t2, s2) = Date_now clk s1;
                       e2 = e1\<lparr>state := Locked, timeline := (timeline e1)\<lparr>locked := Some t2\<rparr>\<rparr>
                   in (Inr e2, saveState (put escrowId e2 s2)))
                else (Inr e1, saveState (put escrowId e1 s1))))"

definition approve :: "clock \<Rightarrow> string \<Rightarrow> string \<Rightarrow> system \<Rightarrow> escrow result" where
  "approve clk escrowId approverId s =
     (case lookup s escrowId of
        None \<Rightarrow> (Inl Escrow_not_found, s)
      | Some e \<Rightarrow>
          if state e \<noteq> Funded then (Inl (Cannot_approve (state e)), s)
          else
            (let e1 = (if approverId \<notin> set (approvals e)
                       then e\<lparr>approvals := approvals e @ [approverId]\<rparr> else e);
                 requiredApprovers = [payer e1, payee e1];
                 allApproved = list_all (\<lambda>i. i \<in> set (approvals e1)) requiredApprovers
             in if allApproved then
                  (let (t, s1) = Date_now clk s;
                       e2 = e1\<lparr>state := Locked, timeline := (timeline e1)\<lparr>locked := Some t\<rparr>\<rparr>
                   in (Inr e2, saveState (put escrowId e2 s1)))
                else (Inr e1, saveState (put escrowId e1 s))))"

subsection \<open>release and refund\<close>

definition release :: "clock \<Rightarrow> string \<Rightarrow> string option \<Rightarrow> system \<Rightarrow> escrow result" where
  "release clk escrowId rsn s =
     (case lookup s escrowId of
        None \<Rightarrow> (Inl Escrow_not_found, s)
      | Some e \<Rightarrow>
          if state e \<noteq> Locked then (Inl (Cannot_release (state e)), s)
          else if truthy (requiresDelivery (conditions e)) \<and> deliveryProof e = None
          then (Inl Delivery_proof_required, s)
          else
            (let (t, s1) = Date_now clk s;
                 e1 = e\<lparr>state := Released, timeline := (timeline e)\<lparr>released := Some t\<rparr>,
                        metadata := (metadata e)\<lparr>releaseReason :=
                                       Some (default_to rsn ''manual release'')\<rparr>\<rparr>
             in (Inr e1, saveState (put escrowId e1 s1))))"

definition refund :: "clock \<Rightarrow> string \<Rightarrow> string option \<Rightarrow> system \<Rightarrow> escrow result" where
  "refund clk escrowId rsn s =
     (case lookup s escrowId of
        None \<Rightarrow> (Inl Escrow_not_found, s)
      | Some e \<Rightarrow>
          if state e \<notin> set [Funded, Locked, Disputed] then (Inl (Cannot_refund (state e)), s)
          else
            (let (t, s1) = Date_now clk s;
                 e1 = e\<lparr>state := Refunded, timeline := (timeline e)\<lparr>refunded := Some t\<rparr>,
                        metadata := (metadata e)\<lparr>refundReason :=
                                       Some (default_to rsn ''manual refund'')\<rparr>\<rparr>
             in (Inr e1, saveState (put escrowId e1 s1))))"

subsection \<open>submitDelivery\<close>

record proof_params =
  p_submittedBy :: "string option"
  p_data :: jsval
  p_signature :: "string option"

text \<open>\<open>proof.submittedBy\<close> is read first: a \<open>proof\<close> that is \<open>null\<close> or \<open>undefined\<close>
  raises before the clock is read and before anything is written. The release that follows
  the write is \<open>this.release\<close>, run on the record that already holds the proof.\<close>

definition submitDelivery :: "clock \<Rightarrow> string \<Rightarrow> proof_params jsarg \<Rightarrow> system \<Rightarrow> escrow result" where
  "submitDelivery clk escrowId prf s =
     (case lookup s escrowId of
        None \<Rightarrow> (Inl Escrow_not_found, s)
      | Some e \<Rightarrow>
          if state e \<noteq> Locked then (Inl (Cannot_submit_delivery (state e)), s)
          else
            (case prf of
               Undefined \<Rightarrow> (Inl TypeError, s)
             | Null \<Rightarrow> (Inl TypeError, s)
             | Obj p \<Rightarrow>
                 (let by = or_else (p_submittedBy p) (payee e);
                      (t, s1) = Date_now clk s;
                      e1 = e\<lparr>deliveryProof := Some \<lparr> submittedBy = by, timestamp = t,
                                 data = p_data p, signature = or_null (p_signature p) \<rparr>\<rparr>;
                      s2 = put escrowId e1 s1
                  in if truthy (requiresDelivery (conditions e1))
                        \<and> \<not> truthy (requiresArbiter (conditions e1))
                        \<and> \<not> truthy (requiresClientConfirmation (conditions e1))
                     then
                       (case release clk escrowId (Some ''automatic - delivery confirmed'') s2 of
                          (Inl err, s3) \<Rightarrow> (Inl err, s3)
                        | (Inr e2, s3) \<Rightarrow> (Inr e2, saveState s3))
                     else (Inr e1, saveState s2))))"

subsection \<open>dispute and resolveDispute\<close>

definition dispute :: "clock \<Rightarrow> string \<Rightarrow> string \<Rightarrow> string option \<Rightarrow> system \<Rightarrow> escrow result" where
  "dispute clk escrowId who rsn s =
     (case lookup s escrowId of
        None \<Rightarrow> (Inl Escrow_not_found, s)
      | Some e \<Rightarrow>
          if state e \<noteq> Locked then (Inl (Cannot_dispute (state e)), s)
          else
            (let (t1, s1) = Date_now clk s;
                 (t2, s2) = Date_now clk s1;
                 e1 = e\<lparr>state := Disputed, timeline := (timeline e)\<lparr>disputed := Some t1\<rparr>,
                        disputeReason := Some \<lparr> disputerId = who, reason = rsn,
                                                 disputeTimestamp = t2 \<rparr>\<rparr>
             in (Inr e1, saveState (put escrowId e1 s2))))"

definition resolveDispute :: "clock \<Rightarrow> string \<Rightarrow> string \<Rightarrow> string \<Rightarrow> system \<Rightarrow> escrow result" where
  "resolveDispute clk escrowId decision arb s =
     (case lookup s escrowId of
        None \<Rightarrow> (Inl Escrow_not_found, s)
      | Some e \<Rightarrow>
          if state e \<noteq> Disputed then (Inl Escrow_not_in_disputed_state, s)
          else
            (case (if decision = ''release''
                   then release clk escrowId (Some (''arbiter decision by '' @ arb)) s
                   else if decision = ''refund''
                   then refund clk escrowId (Some (''arbiter decision by '' @ arb)) s
                   else (Inl (Invalid_dispute_resolution decision), s)) of
               (Inl err, s1) \<Rightarrow> (Inl err, s1)
             | (Inr e1, s1) \<Rightarrow>
                 (let e2 = e1\<lparr>metadata := (metadata e1)\<lparr>arbiter := Some arb\<rparr>\<rparr>
                  in (Inr e2, saveState (put escrowId e2 s1)))))"

subsection \<open>processTimeouts\<close>

text \<open>The test of the loop body: \<open>escrow.timeout && escrow.timeout < now &&
  ['funded', 'locked'].includes(escrow.state)\<close>. A timeout of 0 is falsy.\<close>

definition expired_at :: "int \<Rightarrow> escrow \<Rightarrow> bool" where
  "expired_at now e =
     (case timeout e of
        None \<Rightarrow> False
      | Some t \<Rightarrow> t \<noteq> 0 \<and> t < now \<and> state e \<in> set [Funded, Locked])"

text \<open>The loop over \<open>Object.entries(this.escrows)\<close>: the keys are those present when the
  loop starts, and \<open>escrow\<close> is the object itself, so its fields are read as they are when
  the key is visited. A key of the snapshot always has its object; the \<open>None\<close> branch is
  there to make the function total.\<close>

fun sweep :: "clock \<Rightarrow> int \<Rightarrow> string list \<Rightarrow> string list \<Rightarrow> system \<Rightarrow> (string list) result" where
  "sweep clk now [] expired s = (Inr expired, s)"
| "sweep clk now (escrowId # ids) expired s =
     (case lookup s escrowId of
        None \<Rightarrow> sweep clk now ids expired s
      | Some e \<Rightarrow>
          if expired_at now e then
            (case refund clk escrowId (Some ''automatic timeout'') s of
               (Inl err, s1) \<Rightarrow> (Inl err, s1)
             | (Inr e1, s1) \<Rightarrow> sweep clk now ids (expired @ [escrowId]) s1)
          else sweep clk now ids expired s)"

definition processTimeouts :: "clock \<Rightarrow> system \<Rightarrow> (string list) result" where
  "processTimeouts clk s =
     (let (now, s1) = Date_now clk s
      in sweep clk now (map fst (escrows s1)) [] s1)"

subsection \<open>EscrowWithWebhooks.dispute\<close>

text \<open>The wrapper keeps the engine's state and hands events to its webhook manager; the
  events handed over are recorded in order. Its \<open>dispute\<close> calls
  \<open>super.dispute(escrowId, reason)\<close>: two arguments, so the engine's third parameter is
  \<open>undefined\<close>.\<close>

record disputed_event =
  ev_escrowId :: string
  ev_payer :: string
  ev_payee :: string
  ev_amount :: rat
  ev_disputerId :: string
  ev_reason :: string
  ev_disputedAt :: "int option"

record webhook_system =
  engine :: system
  emitted :: "disputed_event list"

definition webhook_dispute ::
  "clock \<Rightarrow> string \<Rightarrow> string \<Rightarrow> string \<Rightarrow> webhook_system \<Rightarrow> (error + escrow) \<times> webhook_system" where
  "webhook_dispute clk escrowId who rsn w =
     (case dispute clk escrowId rsn None (engine w) of
        (Inl err, s1) \<Rightarrow> (Inl err, w\<lparr>engine := s1\<rparr>)
      | (Inr e, s1) \<Rightarrow>
          (Inr e, w\<lparr>engine := s1,
                    emitted := emitted w @
                      [\<lparr> ev_escrowId = id_field e, ev_payer = payer e, ev_payee = payee e,
                         ev_amount = amount e, ev_disputerId = who, ev_reason = rsn,
                         ev_disputedAt = disputed (timeline e) \<rparr>]\<rparr>))"

subsection \<open>The operations of the engine, as one step function\<close>

datatype operation =
    Create string create_params
  | Fund string string
  | Approve string string
  | SubmitDelivery string "proof_params jsarg"
  | Release string "string option"
  | Refund string "string option"
  | Dispute string string "string option"
  | ResolveDispute string string string
  | ProcessTimeouts

text \<open>The state the engine is left in by a call, whether it returned or threw.\<close>

fun exec :: "clock \<Rightarrow> operation \<Rightarrow> system \<Rightarrow> system" where
  "exec clk (Create hex p) s = snd (create clk hex p s)"
| "exec clk (Fund escrowId tx) s = snd (fund clk escrowId tx s)"
| "exec clk (Approve escrowId approverId) s = snd (approve clk escrowId approverId s)"
| "exec clk (SubmitDelivery escrowId prf) s = snd (submitDelivery clk escrowId prf s)"
| "exec clk (Release escrowId rsn) s = snd (release clk escrowId rsn s)"
| "exec clk (Refund escrowId rsn) s = snd (refund clk escrowId rsn s)"
| "exec clk (Dispute escrowId who rsn) s = snd (dispute clk escrowId who rsn s)"
| "exec clk (ResolveDispute escrowId decision arb) s =
     snd (resolveDispute clk escrowId decision arb s)"
| "exec clk ProcessTimeouts s = snd (processTimeouts clk s)"

subsection \<open>Properties stated about the records\<close>

text \<open>Every approver of the record is its payer or its payee.\<close>

definition approvals_ok :: "escrow \<Rightarrow> bool" where
  "approvals_ok e = list_all (\<lambda>a. a = payer e \<or> a = payee e) (approvals e)"

definition all_approvals_ok :: "system \<Rightarrow> bool" where
  "all_approvals_ok s = list_all (\<lambda>ke. approvals_ok (snd ke)) (escrows s)"

text \<open>The approver named by an \<open>approve\<close> call is a party of the escrow it names.\<close>

fun approver_is_party :: "operation \<Rightarrow> system \<Rightarrow> bool" where
  "approver_is_party (Approve escrowId approverId) s =
     (case lookup s escrowId of
        None \<Rightarrow> True
      | Some e \<Rightarrow> approverId = payer e \<or> approverId = payee e)"
| "approver_is_party _ s = True"

text \<open>The loop test of \<open>processTimeouts\<close> on the record stored under an id.\<close>

definition due :: "int \<Rightarrow> system \<Rightarrow> string \<Rightarrow> bool" where
  "due now s escrowId = (case lookup s escrowId of None \<Rightarrow> False | Some e \<Rightarrow> expired_at now e)"

text \<open>\<open>e'\<close> is \<open>e\<close> after the refund that \<open>processTimeouts\<close> makes: state, refund instant
  and refund reason are written, everything else is as it was.\<close>

definition timeout_refund :: "escrow \<Rightarrow> escrow \<Rightarrow> bool" where
  "timeout_refund e e' =
     (refunded (timeline e') \<noteq> None \<and>
      e' = e\<lparr>state := Refunded,
             timeline := (timeline e)\<lparr>refunded := refunded (timeline e')\<rparr>,
             metadata := (metadata e)\<lparr>refundReason := Some ''automatic timeout''\<rparr>\<rparr>)"

text \<open>The object that \<open>submitDelivery\<close> assigns to \<open>escrow.deliveryProof\<close>, called in
  state \<open>s\<close> on record \<open>e\<close> with proof \<open>p\<close>.\<close>

definition stored_proof :: "clock \<Rightarrow> system \<Rightarrow> escrow \<Rightarrow> proof_params \<Rightarrow> delivery_proof" where
  "stored_proof clk s e p =
     \<lparr> submittedBy = or_else (p_submittedBy p) (payee e), timestamp = clk (ticks s),
       data = p_data p, signature = or_null (p_signature p) \<rparr>"

subsection \<open>Concrete inputs\<close>

definition clock0 :: clock where
  "clock0 n = 1000 + int n"

text \<open>A locked escrow between alice and bob that requires delivery and nothing else.\<close>

definition escrow0 :: escrow where
  "escrow0 =
     \<lparr> id_field = ''esc_01'', payer = ''alice'', payee = ''bob'', amount = 100,
       purpose = ''model training'',
       conditions = \<lparr> requiresApproval = JBool True, requiresDelivery = JBool True,
                      requiresArbiter = JBool False, requiresClientConfirmation = JUndefined \<rparr>,
       state = Locked,
       timeline = \<lparr> created = 10, funded = Some 20, locked = Some 30, released = None,
                    refunded = None, disputed = None \<rparr>,
       timeout = None,
       approvals = [''alice'', ''bob''],
       deliveryProof = None,
       disputeReason = None,
       txHash = Some ''0xabc'',
       metadata = \<lparr> releaseReason = None, refundReason = None, arbiter = None \<rparr> \<rparr>"

definition system_of :: "escrow \<Rightarrow> system" where
  "system_of e = \<lparr> escrows = [(id_field e, e)], storeFile = [(id_field e, e)], ticks = 0 \<rparr>"

definition empty_system :: system where
  "empty_system = \<lparr> escrows = [], storeFile = [], ticks = 0 \<rparr>"

definition params0 :: "rat \<Rightarrow> create_params" where
  "params0 a =
     \<lparr> c_payer = ''alice'', c_payee = ''bob'', c_amount = a, c_purpose = ''model training'',
       c_conditions = Undefined, c_timeoutMinutes = None \<rparr>"

definition proof0 :: proof_params where
  "proof0 = \<lparr> p_submittedBy = Some ''bob'', p_data = JStr ''sha256:abc'', p_signature = None \<rparr>"

definition proof1 :: proof_params where
  "proof1 = \<lparr> p_submittedBy = Some ''mallory'', p_data = JStr ''forged'', p_signature = None \<rparr>"

definition disputed0 :: escrow where
  "disputed0 =
     escrow0\<lparr>state := Disputed,
             timeline := (timeline escrow0)\<lparr>disputed := Some 1000\<rparr>,
             disputeReason := Some \<lparr> disputerId = ''alice'', reason = Some ''incomplete'',
                                      disputeTimestamp = 1001 \<rparr>\<rparr>"

definition disputed_system0 :: system where
  "disputed_system0 =
     \<lparr> escrows = [(''esc_01'', disputed0)], storeFile = [(''esc_01'', disputed0)], ticks = 2 \<rparr>"

definition delivered0 :: delivery_proof where
  "delivered0 =
     \<lparr> submittedBy = ''bob'', timestamp = 40, data = JStr ''sha256:abc'', signature = None \<rparr>"

text \<open>The same escrow when an arbiter is required, without and with a delivery proof.\<close>

definition arbitrated0 :: escrow where
  "arbitrated0 = escrow0\<lparr>conditions := (conditions escrow0)\<lparr>requiresArbiter := JBool True\<rparr>\<rparr>"

definition escrow1 :: escrow where
  "escrow1 = arbitrated0\<lparr>deliveryProof := Some delivered0\<rparr>"

text \<open>What \<open>submitDelivery\<close> with \<open>proof0\<close> makes of \<open>escrow0\<close> under \<open>clock0\<close>.\<close>

definition released0 :: escrow where
  "released0 =
     escrow0\<lparr>deliveryProof := Some \<lparr> submittedBy = ''bob'', timestamp = 1000,
                                      data = JStr ''sha256:abc'', signature = None \<rparr>,
             state := Released,
             timeline := (timeline escrow0)\<lparr>released := Some 1001\<rparr>,
             metadata := (metadata escrow0)\<lparr>releaseReason :=
                                              Some ''automatic - delivery confirmed''\<rparr>\<rparr>"

definition released_system0 :: system where
  "released_system0 =
     \<lparr> escrows = [(''esc_01'', released0)], storeFile = [(''esc_01'', released0)], ticks = 2 \<rparr>"

definition webhook_system0 :: webhook_system where
  "webhook_system0 = \<lparr> engine = system_of escrow0, emitted = [] \<rparr>"

text \<open>A clock that stands still, and a store with one escrow past its timeout and one
  whose timeout is the instant the clock shows.\<close>

definition frozen_clock :: clock where
  "frozen_clock n = 1000"

definition due0 :: escrow where
  "due0 = escrow0\<lparr>id_field := ''esc_02'', timeout := Some 500\<rparr>"

definition edge0 :: escrow where
  "edge0 = escrow0\<lparr>id_field := ''esc_03'', state := Funded, timeout := Some 1000\<rparr>"

definition refunded0 :: escrow where
  "refunded0 =
     due0\<lparr>state := Refunded,
          timeline := (timeline due0)\<lparr>refunded := Some 1000\<rparr>,
          metadata := (metadata due0)\<lparr>refundReason := Some ''automatic timeout''\<rparr>\<rparr>"

definition sweep_system0 :: system where
  "sweep_system0 =
     \<lparr> escrows = [(''esc_02'', due0), (''esc_03'', edge0)],
       storeFile = [(''esc_02'', due0), (''esc_03'', edge0)], ticks = 0 \<rparr>"

definition swept_system0 :: system where
  "swept_system0 =
     \<lparr> escrows = [(''esc_02'', refunded0), (''esc_03'', edge0)],
       storeFile = [(''esc_02'', refunded0), (''esc_03'', edge0)], ticks = 2 \<rparr>"

text \<open>A funded escrow that nobody has approved yet.\<close>

definition funded0 :: escrow where
  "funded0 =
     escrow0\<lparr>state := Funded, approvals := [],
             timeline := (timeline escrow0)\<lparr>locked := None\<rparr>\<rparr>"

section \<open>Proofs\<close>

subsection \<open>Evaluation rules\<close>

lemmas ex_defs = system_of_def escrow0_def clock0_def empty_system_def params0_def proof0_def
  proof1_def disputed0_def disputed_system0_def delivered0_def arbitrated0_def escrow1_def
  webhook_system0_def released0_def released_system0_def

lemmas sweep_defs = frozen_clock_def due0_def edge0_def refunded0_def sweep_system0_def
  swept_system0_def funded0_def

lemmas op_defs = lookup_def put_def saveState_def Date_now_def Let_def

lemma lookup_put: "lookup (put k e s) k' = (if k' = k then Some e else lookup s k')"
  by (simp add: lookup_def put_def update_conv')

lemma lookup_saveState: "lookup (saveState s) k = lookup s k"
  by (simp add: lookup_def saveState_def)

lemma lookup_ticks: "lookup (s\<lparr>ticks := n\<rparr>) k = lookup s k"
  by (simp add: lookup_def)

subsection \<open>What each operation does on a record it accepts or rejects\<close>

lemma refund_ok:
  assumes "lookup s escrowId = Some e" and "state e \<in> {Funded, Locked, Disputed}"
  shows "refund clk escrowId rsn s =
     (Inr (e\<lparr>state := Refunded, timeline := (timeline e)\<lparr>refunded := Some (clk (ticks s))\<rparr>,
              metadata := (metadata e)\<lparr>refundReason := Some (default_to rsn ''manual refund'')\<rparr>\<rparr>),
      saveState (put escrowId (e\<lparr>state := Refunded, timeline := (timeline e)\<lparr>refunded := Some (clk (ticks s))\<rparr>,
              metadata := (metadata e)\<lparr>refundReason := Some (default_to rsn ''manual refund'')\<rparr>\<rparr>)
              (s\<lparr>ticks := Suc (ticks s)\<rparr>)))"
  using assms by (auto simp add: refund_def Date_now_def Let_def)

lemma release_ok:
  assumes "lookup s escrowId = Some e" and "state e = Locked"
    and "\<not> truthy (requiresDelivery (conditions e)) \<or> deliveryProof e \<noteq> None"
  shows "release clk escrowId rsn s =
     (Inr (e\<lparr>state := Released, timeline := (timeline e)\<lparr>released := Some (clk (ticks s))\<rparr>,
              metadata := (metadata e)\<lparr>releaseReason := Some (default_to rsn ''manual release'')\<rparr>\<rparr>),
      saveState (put escrowId (e\<lparr>state := Released, timeline := (timeline e)\<lparr>released := Some (clk (ticks s))\<rparr>,
              metadata := (metadata e)\<lparr>releaseReason := Some (default_to rsn ''manual release'')\<rparr>\<rparr>)
              (s\<lparr>ticks := Suc (ticks s)\<rparr>)))"
  using assms by (auto simp add: release_def Date_now_def Let_def)

lemma release_wrong_state:
  assumes "lookup s escrowId = Some e" and "state e \<noteq> Locked"
  shows "release clk escrowId rsn s = (Inl (Cannot_release (state e)), s)"
  using assms by (simp add: release_def)

lemma dispute_ok:
  assumes "lookup s escrowId = Some e" and "state e = Locked"
  shows "dispute clk escrowId who rsn s =
     (Inr (e\<lparr>state := Disputed, timeline := (timeline e)\<lparr>disputed := Some (clk (ticks s))\<rparr>,
              disputeReason := Some \<lparr> disputerId = who, reason = rsn,
                                       disputeTimestamp = clk (Suc (ticks s)) \<rparr>\<rparr>),
      saveState (put escrowId (e\<lparr>state := Disputed, timeline := (timeline e)\<lparr>disputed := Some (clk (ticks s))\<rparr>,
              disputeReason := Some \<lparr> disputerId = who, reason = rsn,
                                       disputeTimestamp = clk (Suc (ticks s)) \<rparr>\<rparr>)
              (s\<lparr>ticks := Suc (Suc (ticks s))\<rparr>)))"
  using assms by (simp add: dispute_def Date_now_def Let_def)


lemma submitDelivery_wrong_state:
  assumes "lookup s escrowId = Some e" and "state e \<noteq> Locked"
  shows "submitDelivery clk escrowId prf s = (Inl (Cannot_submit_delivery (state e)), s)"
  using assms by (simp add: submitDelivery_def)

lemma submitDelivery_ok:
  assumes "lookup s escrowId = Some e" and "state e = Locked"
  shows "\<exists>e1 s1. submitDelivery clk escrowId (Obj p) s = (Inr e1, s1)
           \<and> lookup s1 escrowId = Some e1
           \<and> deliveryProof e1 = Some (stored_proof clk s e p)
           \<and> conditions e1 = conditions e
           \<and> state e1 = (if truthy (requiresDelivery (conditions e))
                             \<and> \<not> truthy (requiresArbiter (conditions e))
                             \<and> \<not> truthy (requiresClientConfirmation (conditions e))
                          then Released else Locked)"
  using assms
  by (simp add: submitDelivery_def release_def stored_proof_def op_defs update_conv')

lemma submitDelivery_Inr:
  assumes "submitDelivery clk escrowId prf s = (Inr e1, s1)"
  shows "\<exists>p. prf = Obj p"
  using assms by (cases "prf") (auto simp add: submitDelivery_def split: option.splits if_splits)

subsection \<open>resolveDispute with decision release\<close>

text \<open>
  Claim C1 says that \<open>resolveDispute(id, 'release', arbiter)\<close> on a disputed escrow succeeds,
  leaves it released and stamps the arbiter. The code delegates to \<open>release\<close>, and
  \<open>release\<close> accepts state \<open>locked\<close> only: on every disputed escrow the call throws
  "Cannot release escrow in state: disputed" before anything is written, so the escrow stays
  disputed and no arbiter is stamped.
\<close>

theorem resolveDispute_release_fails:
  assumes "lookup s escrowId = Some e" and "state e = Disputed"
  shows "resolveDispute clk escrowId ''release'' arb s = (Inl (Cannot_release Disputed), s)"
  using assms by (simp add: resolveDispute_def release_def)

theorem resolveDispute_release_fails_witness:
  "lookup (system_of (escrow1\<lparr>state := Disputed\<rparr>)) ''esc_01'' = Some (escrow1\<lparr>state := Disputed\<rparr>)
   \<and> state (escrow1\<lparr>state := Disputed\<rparr>) = Disputed
   \<and> resolveDispute clock0 ''esc_01'' ''release'' ''arbiter-agent'' (system_of (escrow1\<lparr>state := Disputed\<rparr>))
       = (Inl (Cannot_release Disputed), system_of (escrow1\<lparr>state := Disputed\<rparr>))"
proof -
  have l: "lookup (system_of (escrow1\<lparr>state := Disputed\<rparr>)) ''esc_01'' = Some (escrow1\<lparr>state := Disputed\<rparr>)"
    by (simp add: lookup_def ex_defs)
  have d: "state (escrow1\<lparr>state := Disputed\<rparr>) = Disputed" by simp
  show ?thesis using l d resolveDispute_release_fails [OF l d] by simp
qed

subsection \<open>dispute, then release or refund\<close>




subsection \<open>submitDelivery on a record that has a delivery proof\<close>

text \<open>
  Claim C5, amended. On an escrow whose \<open>deliveryProof\<close> is present, \<open>submitDelivery(id, proof)\<close>
  fails only when the state is not \<open>locked\<close> (with the state error, the engine state
  unchanged); on a locked escrow it succeeds and the stored proof is replaced by the new one.
  There is no write-once check.
\<close>

theorem submitDelivery_overwrites:
  assumes "lookup s escrowId = Some e" and "deliveryProof e = Some dp"
  shows "(if state e = Locked
          then \<exists>e1 s1. submitDelivery clk escrowId (Obj p) s = (Inr e1, s1)
                 \<and> lookup s1 escrowId = Some e1
                 \<and> deliveryProof e1 = Some (stored_proof clk s e p)
          else submitDelivery clk escrowId (Obj p) s = (Inl (Cannot_submit_delivery (state e)), s))"
proof (cases "state e = Locked")
  case True
  from submitDelivery_ok [OF assms(1) True, of clk p] True show ?thesis by auto
next
  case False
  with submitDelivery_wrong_state [OF assms(1) False] show ?thesis by simp
qed

theorem submitDelivery_overwrites_witness:
  "lookup (system_of escrow1) ''esc_01'' = Some escrow1
   \<and> deliveryProof escrow1 = Some delivered0
   \<and> state escrow1 = Locked
   \<and> (\<exists>e1 s1. submitDelivery clock0 ''esc_01'' (Obj proof1) (system_of escrow1) = (Inr e1, s1)
         \<and> lookup s1 ''esc_01'' = Some e1
         \<and> deliveryProof e1 = Some (stored_proof clock0 (system_of escrow1) escrow1 proof1))"
proof -
  have l: "lookup (system_of escrow1) ''esc_01'' = Some escrow1"
    by (simp add: lookup_def ex_defs)
  have d: "deliveryProof escrow1 = Some delivered0" by (simp add: ex_defs)
  have st: "state escrow1 = Locked" by (simp add: ex_defs)
  show ?thesis using l d st submitDelivery_overwrites [OF l d, of clock0 proof1] by simp
qed

theorem submitDelivery_twice_counterexample:
  "deliveryProof escrow1 = Some delivered0
   \<and> fst (submitDelivery clock0 ''esc_01'' (Obj proof1) (system_of escrow1))
       = Inr (escrow1\<lparr>deliveryProof := Some \<lparr> submittedBy = ''mallory'', timestamp = 1000,
                                                data = JStr ''forged'', signature = None \<rparr>\<rparr>)
   \<and> map_option deliveryProof
        (lookup (snd (submitDelivery clock0 ''esc_01'' (Obj proof1) (system_of escrow1))) ''esc_01'')
       = Some (Some \<lparr> submittedBy = ''mallory'', timestamp = 1000, data = JStr ''forged'',
                      signature = None \<rparr>)"
  by (simp add: submitDelivery_def op_defs ex_defs)

subsection \<open>create\<close>

text \<open>
  Claim C6, amended. \<open>create\<close> does not look at the amount: for every amount, positive or
  not, and every \<open>conditions\<close> argument other than \<open>null\<close>, it returns a new record in state
  \<open>pending\<close> with that amount and no approvals, stores it under its id, leaves every other
  id as it was, writes the store to the file and reads the clock once.
\<close>

theorem create_any_amount:
  assumes "c_conditions p \<noteq> Null"
  shows "\<exists>e s1. create clk hex p s = (Inr e, s1)
           \<and> state e = Pending \<and> amount e = c_amount p
           \<and> payer e = c_payer p \<and> payee e = c_payee p \<and> approvals e = []
           \<and> lookup s1 (''esc_'' @ hex) = Some e
           \<and> (\<forall>k. k \<noteq> ''esc_'' @ hex \<longrightarrow> lookup s1 k = lookup s k)
           \<and> storeFile s1 = escrows s1 \<and> ticks s1 = Suc (ticks s)"
  using assms
  by (cases "c_conditions p")
     (simp_all add: create_def new_escrow_def op_defs update_conv')

theorem create_any_amount_witness:
  "c_conditions (params0 (-5)) \<noteq> Null
   \<and> (\<exists>e s1. create clock0 ''ab'' (params0 (-5)) empty_system = (Inr e, s1)
           \<and> state e = Pending \<and> amount e = -5
           \<and> payer e = ''alice'' \<and> payee e = ''bob'' \<and> approvals e = []
           \<and> lookup s1 ''esc_ab'' = Some e
           \<and> lookup s1 ''esc_01'' = lookup empty_system ''esc_01''
           \<and> storeFile s1 = escrows s1 \<and> ticks s1 = Suc 0)"
proof -
  have h: "c_conditions (params0 (-5)) \<noteq> Null" by (simp add: params0_def)
  from create_any_amount [OF h, of clock0 "''ab''" empty_system]
  obtain e s1 where "create clock0 ''ab'' (params0 (-5)) empty_system = (Inr e, s1)"
    and "state e = Pending" and "amount e = c_amount (params0 (-5))"
    and "payer e = c_payer (params0 (-5))" and "payee e = c_payee (params0 (-5))"
    and "approvals e = []" and "lookup s1 (''esc_'' @ ''ab'') = Some e"
    and o: "\<forall>k. k \<noteq> ''esc_'' @ ''ab'' \<longrightarrow> lookup s1 k = lookup empty_system k"
    and "storeFile s1 = escrows s1" and "ticks s1 = Suc (ticks empty_system)"
    by blast
  moreover from o have "lookup s1 ''esc_01'' = lookup empty_system ''esc_01''" by simp
  ultimately show ?thesis using h by (simp add: params0_def empty_system_def)
qed

theorem create_nonpositive_amount_counterexample:
  "c_amount (params0 (-5)) \<le> 0
   \<and> fst (create clock0 ''ab'' (params0 (-5)) empty_system)
       = Inr (new_escrow ''esc_ab'' 1000 (params0 (-5)) no_conditions)
   \<and> state (new_escrow ''esc_ab'' 1000 (params0 (-5)) no_conditions) = Pending
   \<and> amount (new_escrow ''esc_ab'' 1000 (params0 (-5)) no_conditions) = -5"
  by (simp add: create_def new_escrow_def op_defs ex_defs)

subsection \<open>Automatic release on delivery\<close>

text \<open>
  Claim C7. On a locked escrow whose conditions have \<open>requiresDelivery\<close> true and
  \<open>requiresArbiter\<close> and \<open>requiresClientConfirmation\<close> false (or absent),
  \<open>submitDelivery\<close> succeeds for every proof object, and every successful
  \<open>submitDelivery\<close> returns and stores the escrow in state \<open>released\<close>, never \<open>locked\<close>.
\<close>

theorem submitDelivery_auto_release:
  assumes "lookup s escrowId = Some e" and "state e = Locked"
    and "truthy (requiresDelivery (conditions e))"
    and "\<not> truthy (requiresArbiter (conditions e))"
    and "\<not> truthy (requiresClientConfirmation (conditions e))"
  shows "(\<exists>e1 s1. submitDelivery clk escrowId (Obj p) s = (Inr e1, s1))
       \<and> (\<forall>prf e1 s1. submitDelivery clk escrowId prf s = (Inr e1, s1)
             \<longrightarrow> state e1 = Released \<and> lookup s1 escrowId = Some e1)"
proof -
  have ok: "\<And>q. \<exists>e1 s1. submitDelivery clk escrowId (Obj q) s = (Inr e1, s1)
           \<and> lookup s1 escrowId = Some e1 \<and> state e1 = Released"
  proof -
    fix q
    from submitDelivery_ok [OF assms(1,2), of clk q] assms(3-5)
    show "\<exists>e1 s1. submitDelivery clk escrowId (Obj q) s = (Inr e1, s1)
           \<and> lookup s1 escrowId = Some e1 \<and> state e1 = Released"
      by (simp, blast)
  qed
  have "\<And>prf e1 s1. submitDelivery clk escrowId prf s = (Inr e1, s1)
             \<Longrightarrow> state e1 = Released \<and> lookup s1 escrowId = Some e1"
  proof -
    fix a e1 s1
    assume r: "submitDelivery clk escrowId a s = (Inr e1, s1)"
    from submitDelivery_Inr [OF r] obtain q where "a = Obj q" by blast
    with r ok [of q] show "state e1 = Released \<and> lookup s1 escrowId = Some e1" by auto
  qed
  with ok [of p] show ?thesis by blast
qed

theorem submitDelivery_auto_release_witness:
  "lookup (system_of escrow0) ''esc_01'' = Some escrow0 \<and> state escrow0 = Locked
   \<and> truthy (requiresDelivery (conditions escrow0))
   \<and> \<not> truthy (requiresArbiter (conditions escrow0))
   \<and> \<not> truthy (requiresClientConfirmation (conditions escrow0))
   \<and> submitDelivery clock0 ''esc_01'' (Obj proof0) (system_of escrow0)
       = (Inr released0, released_system0)
   \<and> state released0 = Released
   \<and> lookup released_system0 ''esc_01'' = Some released0"
proof -
  have l: "lookup (system_of escrow0) ''esc_01'' = Some escrow0"
    by (simp add: lookup_def ex_defs)
  have st: "state escrow0 = Locked" by (simp add: ex_defs)
  have c1: "truthy (requiresDelivery (conditions escrow0))" by (simp add: ex_defs)
  have c2: "\<not> truthy (requiresArbiter (conditions escrow0))" by (simp add: ex_defs)
  have c3: "\<not> truthy (requiresClientConfirmation (conditions escrow0))" by (simp add: ex_defs)
  have h: "submitDelivery clock0 ''esc_01'' (Obj proof0) (system_of escrow0)
       = (Inr released0, released_system0)"
    by (simp add: submitDelivery_def release_def op_defs ex_defs)
  from submitDelivery_auto_release [OF l st c1 c2 c3, of clock0 proof0] h
  have "state released0 = Released \<and> lookup released_system0 ''esc_01'' = Some released0"
    by blast
  with l st c1 c2 c3 h show ?thesis by simp
qed

subsection \<open>release before and after delivery\<close>

text \<open>
  Claim C8, amended. On a locked escrow with \<open>requiresDelivery\<close> true and no delivery
  proof, \<open>release(id, reason)\<close> fails with "Delivery proof required before release" and
  leaves the engine state unchanged. \<open>submitDelivery(id, proof)\<close> then succeeds; after it the
  identical \<open>release\<close> call succeeds when \<open>requiresArbiter\<close> or
  \<open>requiresClientConfirmation\<close> is set, and otherwise \<open>submitDelivery\<close> has already
  released the escrow and the \<open>release\<close> call fails on state \<open>released\<close>, leaving the
  state unchanged.
\<close>

theorem release_needs_delivery:
  assumes "lookup s escrowId = Some e" and "state e = Locked"
    and "truthy (requiresDelivery (conditions e))" and "deliveryProof e = None"
  shows "release clk escrowId r s = (Inl Delivery_proof_required, s)
       \<and> (\<exists>e1 s1. submitDelivery clk escrowId (Obj p) s = (Inr e1, s1)
            \<and> (if truthy (requiresArbiter (conditions e))
                    \<or> truthy (requiresClientConfirmation (conditions e))
               then \<exists>e2 s2. release clk escrowId r s1 = (Inr e2, s2) \<and> state e2 = Released
                      \<and> lookup s2 escrowId = Some e2
               else state e1 = Released
                      \<and> release clk escrowId r s1 = (Inl (Cannot_release Released), s1)))"
proof -
  have a: "release clk escrowId r s = (Inl Delivery_proof_required, s)"
    using assms by (simp add: release_def)
  from submitDelivery_ok [OF assms(1,2), of clk p]
  obtain e1 s1 where sd: "submitDelivery clk escrowId (Obj p) s = (Inr e1, s1)"
    and l1: "lookup s1 escrowId = Some e1"
    and dp: "deliveryProof e1 = Some (stored_proof clk s e p)"
    and c: "conditions e1 = conditions e"
    and st: "state e1 = (if truthy (requiresDelivery (conditions e))
                             \<and> \<not> truthy (requiresArbiter (conditions e))
                             \<and> \<not> truthy (requiresClientConfirmation (conditions e))
                          then Released else Locked)"
    by blast
  show ?thesis
  proof (cases "truthy (requiresArbiter (conditions e))
                    \<or> truthy (requiresClientConfirmation (conditions e))")
    case True
    then have "state e1 = Locked" using st by auto
    from release_ok [OF l1 this, of clk r] dp
    have "\<exists>e2 s2. release clk escrowId r s1 = (Inr e2, s2) \<and> state e2 = Released
                      \<and> lookup s2 escrowId = Some e2"
      by (simp add: lookup_put lookup_saveState)
    with a sd True show ?thesis by auto
  next
    case False
    then have r: "state e1 = Released" using st assms(3) by auto
    then have "state e1 \<noteq> Locked" by simp
    from release_wrong_state [OF l1 this, of clk r] r a sd False show ?thesis by auto
  qed
qed

theorem release_needs_delivery_witness:
  "lookup (system_of arbitrated0) ''esc_01'' = Some arbitrated0 \<and> state arbitrated0 = Locked
   \<and> truthy (requiresDelivery (conditions arbitrated0)) \<and> deliveryProof arbitrated0 = None
   \<and> truthy (requiresArbiter (conditions arbitrated0))
   \<and> release clock0 ''esc_01'' (Some ''confirmed'') (system_of arbitrated0)
       = (Inl Delivery_proof_required, system_of arbitrated0)
   \<and> (\<exists>e1 s1. submitDelivery clock0 ''esc_01'' (Obj proof0) (system_of arbitrated0) = (Inr e1, s1)
         \<and> (\<exists>e2 s2. release clock0 ''esc_01'' (Some ''confirmed'') s1 = (Inr e2, s2)
               \<and> state e2 = Released \<and> lookup s2 ''esc_01'' = Some e2))"
proof -
  have l: "lookup (system_of arbitrated0) ''esc_01'' = Some arbitrated0"
    by (simp add: lookup_def ex_defs)
  have st: "state arbitrated0 = Locked" by (simp add: ex_defs)
  have c1: "truthy (requiresDelivery (conditions arbitrated0))" by (simp add: ex_defs)
  have d: "deliveryProof arbitrated0 = None" by (simp add: ex_defs)
  have c2: "truthy (requiresArbiter (conditions arbitrated0))" by (simp add: ex_defs)
  show ?thesis
    using l st c1 d c2
      release_needs_delivery [OF l st c1 d, of clock0 "Some ''confirmed''" proof0]
    by simp
qed

theorem release_after_delivery_counterexample:
  "map_option state (lookup (system_of escrow0) ''esc_01'') = Some Locked
   \<and> requiresDelivery (conditions escrow0) = JBool True \<and> deliveryProof escrow0 = None
   \<and> fst (release clock0 ''esc_01'' (Some ''confirmed'') (system_of escrow0))
       = Inl Delivery_proof_required
   \<and> fst (release clock0 ''esc_01'' (Some ''confirmed'')
            (snd (submitDelivery clock0 ''esc_01'' (Obj proof0) (system_of escrow0))))
       = Inl (Cannot_release Released)"
  by (simp add: submitDelivery_def release_def op_defs ex_defs)

subsection \<open>The webhook wrapper's dispute\<close>

text \<open>
  Claim C10 says that the wrapper's \<open>dispute(escrowId, disputerId, reason)\<close> leaves the
  record as the engine's \<open>dispute(escrowId, disputerId, reason)\<close> does. The wrapper calls
  \<open>super.dispute(escrowId, reason)\<close>: on every locked escrow the stored
  \<open>disputeReason.disputerId\<close> is the \<open>reason\<close> argument and \<open>disputeReason.reason\<close> is
  \<open>undefined\<close>, where the engine called directly stores the \<open>disputerId\<close> and the
  \<open>reason\<close> given.
\<close>

theorem webhook_dispute_swaps_arguments:
  assumes "lookup (engine w) escrowId = Some e" and "state e = Locked"
  shows "(\<exists>e1 w1. webhook_dispute clk escrowId who rsn w = (Inr e1, w1)
            \<and> lookup (engine w1) escrowId = Some e1
            \<and> disputeReason e1 = Some \<lparr> disputerId = rsn, reason = None,
                                          disputeTimestamp = clk (Suc (ticks (engine w))) \<rparr>)
       \<and> (\<exists>e2 s2. dispute clk escrowId who (Some rsn) (engine w) = (Inr e2, s2)
            \<and> lookup s2 escrowId = Some e2
            \<and> disputeReason e2 = Some \<lparr> disputerId = who, reason = Some rsn,
                                          disputeTimestamp = clk (Suc (ticks (engine w))) \<rparr>)"
  using dispute_ok [OF assms, of clk rsn None] dispute_ok [OF assms, of clk who "Some rsn"]
  by (simp add: webhook_dispute_def lookup_put lookup_saveState)

theorem webhook_dispute_swaps_arguments_witness:
  "lookup (engine webhook_system0) ''esc_01'' = Some escrow0 \<and> state escrow0 = Locked
   \<and> (\<exists>e1 w1. webhook_dispute clock0 ''esc_01'' ''alice'' ''incomplete'' webhook_system0 = (Inr e1, w1)
         \<and> lookup (engine w1) ''esc_01'' = Some e1
         \<and> disputeReason e1 = Some \<lparr> disputerId = ''incomplete'', reason = None,
                                       disputeTimestamp = 1001 \<rparr>)
   \<and> (\<exists>e2 s2. dispute clock0 ''esc_01'' ''alice'' (Some ''incomplete'') (engine webhook_system0)
                = (Inr e2, s2)
         \<and> lookup s2 ''esc_01'' = Some e2
         \<and> disputeReason e2 = Some \<lparr> disputerId = ''alice'', reason = Some ''incomplete'',
                                       disputeTimestamp = 1001 \<rparr>)"
proof -
  have l: "lookup (engine webhook_system0) ''esc_01'' = Some escrow0"
    by (simp add: lookup_def ex_defs)
  have st: "state escrow0 = Locked" by (simp add: ex_defs)
  have t: "clock0 (Suc (ticks (engine webhook_system0))) = 1001"
    by (simp add: ex_defs)
  show ?thesis
    using l st webhook_dispute_swaps_arguments [OF l st, of clock0 "''alice''" "''incomplete''"]
    unfolding t by simp
qed

subsection \<open>The sweep\<close>

lemma expired_at_state: "expired_at now e \<Longrightarrow> state e \<in> {Funded, Locked, Disputed}"
  by (auto simp add: expired_at_def split: option.splits)

lemma timeout_refund_not_expired: "timeout_refund e e' \<Longrightarrow> \<not> expired_at now e'"
  by (auto simp add: timeout_refund_def expired_at_def split: option.splits)

lemma keys_put: "k \<in> set (map fst (escrows s)) \<Longrightarrow> map fst (escrows (put k e s)) = map fst (escrows s)"
  by (simp add: put_def update_keys)

lemma keys_saveState: "escrows (saveState s) = escrows s"
  by (simp add: saveState_def)

lemma lookup_keys: "lookup s i = Some e \<Longrightarrow> i \<in> set (map fst (escrows s))"
  by (auto simp add: lookup_def dest: map_of_SomeD intro: rev_image_eqI)

lemma refund_due:
  assumes "lookup s a = Some e" and "expired_at now e"
  shows "\<exists>e1 s1. refund clk a (Some ''automatic timeout'') s = (Inr e1, s1)
           \<and> timeout_refund e e1
           \<and> (\<forall>i. lookup s1 i = (if i = a then Some e1 else lookup s i))
           \<and> map fst (escrows s1) = map fst (escrows s)"
proof -
  have k: "a \<in> set (map fst (escrows (s\<lparr>ticks := Suc (ticks s)\<rparr>)))"
    using lookup_keys [OF assms(1)] by simp
  show ?thesis
    using refund_ok [OF assms(1) expired_at_state [OF assms(2)], of clk "Some ''automatic timeout''"]
      keys_put [OF k]
    by (simp add: timeout_refund_def lookup_put lookup_saveState lookup_ticks keys_saveState)
qed

lemma sweep_result:
  "\<exists>ex. fst (sweep clk now ids acc s) = Inr (acc @ ex) \<and> distinct ex
        \<and> set ex = {i \<in> set ids. due now s i}"
proof (induction ids arbitrary: acc s)
  case Nil
  then show ?case by simp
next
  case (Cons a ids)
  show ?case
  proof (cases "due now s a")
    case False
    then have "sweep clk now (a # ids) acc s = sweep clk now ids acc s"
      by (simp add: due_def split: option.splits)
    moreover from False have "{i \<in> set (a # ids). due now s i} = {i \<in> set ids. due now s i}"
      by auto
    ultimately show ?thesis using Cons.IH [where acc = acc and s = s] by simp
  next
    case True
    then obtain e where e: "lookup s a = Some e" "expired_at now e"
      by (auto simp add: due_def split: option.splits)
    from refund_due [OF e, of clk] obtain e1 s1 where
      r: "refund clk a (Some ''automatic timeout'') s = (Inr e1, s1)"
      and tr: "timeout_refund e e1"
      and l: "\<forall>i. lookup s1 i = (if i = a then Some e1 else lookup s i)"
      by blast
    have sw: "sweep clk now (a # ids) acc s = sweep clk now ids (acc @ [a]) s1"
      using e r by simp
    have d1: "\<And>i. due now s1 i = (i \<noteq> a \<and> due now s i)"
      using l timeout_refund_not_expired [OF tr, of now] by (simp add: due_def)
    from Cons.IH [where acc = "acc @ [a]" and s = s1] obtain ex where
      ex: "fst (sweep clk now ids (acc @ [a]) s1) = Inr ((acc @ [a]) @ ex)" "distinct ex"
        "set ex = {i \<in> set ids. due now s1 i}"
      by blast
    have "fst (sweep clk now (a # ids) acc s) = Inr (acc @ (a # ex))"
      using sw ex(1) by simp
    moreover have "distinct (a # ex)" using ex(2,3) d1 by simp
    moreover have "set (a # ex) = {i \<in> set (a # ids). due now s i}"
      using ex(3) d1 True by auto
    ultimately show ?thesis by blast
  qed
qed

lemma sweep_lookup:
  "(case lookup s i of
      None \<Rightarrow> lookup (snd (sweep clk now ids acc s)) i = None
    | Some e \<Rightarrow>
        if i \<in> set ids \<and> expired_at now e
        then \<exists>e'. lookup (snd (sweep clk now ids acc s)) i = Some e' \<and> timeout_refund e e'
        else lookup (snd (sweep clk now ids acc s)) i = Some e)"
proof (induction ids arbitrary: acc s)
  case Nil
  then show ?case by (simp split: option.splits)
next
  case (Cons a ids)
  show ?case
  proof (cases "due now s a")
    case False
    then have sw: "sweep clk now (a # ids) acc s = sweep clk now ids acc s"
      by (simp add: due_def split: option.splits)
    from False have "\<And>e. lookup s i = Some e \<Longrightarrow> expired_at now e \<Longrightarrow> i \<noteq> a"
      by (auto simp add: due_def)
    then show ?thesis using Cons.IH [where acc = acc and s = s] unfolding sw
      by (auto split: option.splits if_splits)
  next
    case True
    then obtain e where e: "lookup s a = Some e" "expired_at now e"
      by (auto simp add: due_def split: option.splits)
    from refund_due [OF e, of clk] obtain e1 s1 where
      r: "refund clk a (Some ''automatic timeout'') s = (Inr e1, s1)"
      and tr: "timeout_refund e e1"
      and l: "\<forall>i. lookup s1 i = (if i = a then Some e1 else lookup s i)"
      by blast
    have sw: "sweep clk now (a # ids) acc s = sweep clk now ids (acc @ [a]) s1"
      using e r by simp
    have ne: "\<not> expired_at now e1" by (rule timeout_refund_not_expired [OF tr])
    show ?thesis
    proof (cases "i = a")
      case True
      with Cons.IH [where acc = "acc @ [a]" and s = s1] l ne e tr show ?thesis unfolding sw by simp
    next
      case False
      with l have "lookup s1 i = lookup s i" by simp
      with Cons.IH [where acc = "acc @ [a]" and s = s1] False show ?thesis unfolding sw
        by (auto split: option.splits if_splits)
    qed
  qed
qed

lemma sweep_noop:
  "\<forall>i \<in> set ids. \<not> due now s i \<Longrightarrow> sweep clk now ids acc s = (Inr acc, s)"
  by (induction ids) (auto simp add: due_def split: option.splits)

lemma processTimeouts_sweep:
  "processTimeouts clk s =
     sweep clk (clk (ticks s)) (map fst (escrows s)) [] (s\<lparr>ticks := Suc (ticks s)\<rparr>)"
  by (simp add: processTimeouts_def Date_now_def)

lemma processTimeouts_spec:
  "\<exists>ex s'. processTimeouts clk s = (Inr ex, s') \<and> distinct ex
     \<and> set ex = {i. \<exists>e. lookup s i = Some e \<and> expired_at (clk (ticks s)) e}
     \<and> (\<forall>i e. lookup s i = Some e \<longrightarrow>
           (if expired_at (clk (ticks s)) e
            then \<exists>e'. lookup s' i = Some e' \<and> timeout_refund e e'
            else lookup s' i = Some e))
     \<and> (\<forall>i. lookup s i = None \<longrightarrow> lookup s' i = None)"
proof -
  let ?now = "clk (ticks s)" and ?s0 = "s\<lparr>ticks := Suc (ticks s)\<rparr>"
  let ?ids = "map fst (escrows s)"
  let ?r = "sweep clk ?now ?ids [] ?s0"
  from sweep_result [where s = ?s0 and clk = clk and now = ?now and ids = ?ids and acc = "[]"] obtain ex where
    ex: "fst ?r = Inr ex" "distinct ex" "set ex = {i \<in> set ?ids. due ?now ?s0 i}"
    by auto
  have "{i \<in> set ?ids. due ?now ?s0 i} = {i. \<exists>e. lookup s i = Some e \<and> expired_at ?now e}"
    using lookup_keys [of s] by (auto simp add: due_def lookup_ticks split: option.splits)
  with ex(3) have s: "set ex = {i. \<exists>e. lookup s i = Some e \<and> expired_at ?now e}" by simp
  have a: "\<forall>i e. lookup s i = Some e \<longrightarrow>
           (if expired_at ?now e
            then \<exists>e'. lookup (snd ?r) i = Some e' \<and> timeout_refund e e'
            else lookup (snd ?r) i = Some e)"
  proof (intro allI impI)
    fix i e assume l: "lookup s i = Some e"
    then have "lookup ?s0 i = Some e" by (simp add: lookup_ticks)
    with sweep_lookup [where s = ?s0 and i = i and clk = clk and now = ?now and ids = ?ids and acc = "[]"] lookup_keys [OF l]
    show "if expired_at ?now e
            then \<exists>e'. lookup (snd ?r) i = Some e' \<and> timeout_refund e e'
            else lookup (snd ?r) i = Some e"
      by simp
  qed
  have b: "\<forall>i. lookup s i = None \<longrightarrow> lookup (snd ?r) i = None"
  proof (intro allI impI)
    fix i assume "lookup s i = None"
    then have "lookup ?s0 i = None" by (simp add: lookup_ticks)
    with sweep_lookup [where s = ?s0 and i = i and clk = clk and now = ?now and ids = ?ids and acc = "[]"] show "lookup (snd ?r) i = None" by simp
  qed
  have "processTimeouts clk s = (Inr ex, snd ?r)"
    using ex(1) by (simp add: processTimeouts_sweep prod_eq_iff)
  with ex(2) s a b show ?thesis by blast
qed

text \<open>
  Claim C2, amended. \<open>processTimeouts()\<close> takes no instant from its caller: it reads the
  clock once, as \<open>now\<close>, and never throws. It refunds, with reason "automatic timeout",
  exactly the escrows whose state is \<open>funded\<close> or \<open>locked\<close> and whose timeout is set,
  is not 0 and is strictly before \<open>now\<close>, each once, and returns their ids; every other
  record, and the set of ids, is unchanged.
\<close>

theorem processTimeouts_refunds_expired:
  "\<exists>ex s'. processTimeouts clk s = (Inr ex, s') \<and> distinct ex
     \<and> set ex = {i. \<exists>e. lookup s i = Some e \<and> expired_at (clk (ticks s)) e}
     \<and> (\<forall>i e. lookup s i = Some e \<longrightarrow>
           (if expired_at (clk (ticks s)) e
            then \<exists>e'. lookup s' i = Some e' \<and> timeout_refund e e'
            else lookup s' i = Some e))
     \<and> (\<forall>i. lookup s i = None \<longrightarrow> lookup s' i = None)"
  by (rule processTimeouts_spec)

theorem processTimeouts_refunds_expired_witness:
  "processTimeouts frozen_clock sweep_system0 = (Inr [''esc_02''], swept_system0)
   \<and> lookup sweep_system0 ''esc_02'' = Some due0
   \<and> expired_at (frozen_clock (ticks sweep_system0)) due0
   \<and> lookup swept_system0 ''esc_02'' = Some refunded0
   \<and> timeout_refund due0 refunded0
   \<and> lookup sweep_system0 ''esc_03'' = Some edge0
   \<and> \<not> expired_at (frozen_clock (ticks sweep_system0)) edge0
   \<and> lookup swept_system0 ''esc_03'' = Some edge0
   \<and> lookup sweep_system0 ''esc_01'' = None
   \<and> lookup swept_system0 ''esc_01'' = None"
proof -
  have h: "processTimeouts frozen_clock sweep_system0 = (Inr [''esc_02''], swept_system0)"
    by (simp add: processTimeouts_def refund_def expired_at_def op_defs sweep_defs escrow0_def)
  have l2: "lookup sweep_system0 ''esc_02'' = Some due0"
    and l3: "lookup sweep_system0 ''esc_03'' = Some edge0"
    and l1: "lookup sweep_system0 ''esc_01'' = None"
    by (simp_all add: lookup_def sweep_defs)
  have x2: "expired_at (frozen_clock (ticks sweep_system0)) due0"
    and x3: "\<not> expired_at (frozen_clock (ticks sweep_system0)) edge0"
    by (simp_all add: expired_at_def sweep_defs escrow0_def)
  have r2: "lookup swept_system0 ''esc_02'' = Some refunded0"
    by (simp add: lookup_def sweep_defs)
  from processTimeouts_refunds_expired [of frozen_clock sweep_system0] h
  have a: "\<forall>i e. lookup sweep_system0 i = Some e \<longrightarrow>
           (if expired_at (frozen_clock (ticks sweep_system0)) e
            then \<exists>e'. lookup swept_system0 i = Some e' \<and> timeout_refund e e'
            else lookup swept_system0 i = Some e)"
    and b: "\<forall>i. lookup sweep_system0 i = None \<longrightarrow> lookup swept_system0 i = None"
    by auto
  from a l2 have "if expired_at (frozen_clock (ticks sweep_system0)) due0
            then \<exists>e'. lookup swept_system0 ''esc_02'' = Some e' \<and> timeout_refund due0 e'
            else lookup swept_system0 ''esc_02'' = Some due0"
    by blast
  with x2 r2 have "timeout_refund due0 refunded0" by simp
  moreover from a l3 have "if expired_at (frozen_clock (ticks sweep_system0)) edge0
            then \<exists>e'. lookup swept_system0 ''esc_03'' = Some e' \<and> timeout_refund edge0 e'
            else lookup swept_system0 ''esc_03'' = Some edge0"
    by blast
  with x3 have "lookup swept_system0 ''esc_03'' = Some edge0" by simp
  moreover from b l1 have "lookup swept_system0 ''esc_01'' = None" by blast
  ultimately show ?thesis using h l1 l2 l3 x2 x3 r2 by simp
qed

theorem processTimeouts_at_timeout_counterexample:
  "lookup sweep_system0 ''esc_03'' = Some edge0
   \<and> state edge0 = Funded \<and> timeout edge0 = Some 1000
   \<and> frozen_clock (ticks sweep_system0) = 1000
   \<and> processTimeouts frozen_clock sweep_system0 = (Inr [''esc_02''], swept_system0)
   \<and> lookup swept_system0 ''esc_03'' = Some edge0
   \<and> lookup swept_system0 ''esc_02'' = Some refunded0
   \<and> refundReason (metadata refunded0) = Some ''automatic timeout''"
  by (simp add: processTimeouts_def refund_def expired_at_def op_defs sweep_defs escrow0_def)

lemma processTimeouts_twice:
  assumes "processTimeouts clk s = (Inr ex1, s1)"
    and "processTimeouts clk s1 = (Inr ex2, s2)"
  shows "distinct ex1
       \<and> set ex1 = {i. \<exists>e. lookup s i = Some e \<and> expired_at (clk (ticks s)) e}
       \<and> (\<forall>i \<in> set ex1. \<exists>e e'. lookup s i = Some e \<and> timeout_refund e e'
              \<and> lookup s1 i = Some e' \<and> lookup s2 i = Some e')
       \<and> distinct ex2
       \<and> set ex2 = {i. \<exists>e. lookup s1 i = Some e \<and> expired_at (clk (ticks s1)) e}
       \<and> set ex1 \<inter> set ex2 = {}
       \<and> (clk (ticks s1) = clk (ticks s)
            \<longrightarrow> ex2 = [] \<and> s2 = s1\<lparr>ticks := Suc (ticks s1)\<rparr>)"
proof -
  let ?now = "clk (ticks s)" and ?now' = "clk (ticks s1)"
  from processTimeouts_spec [of clk s] assms(1)
  have d1: "distinct ex1"
    and x1: "set ex1 = {i. \<exists>e. lookup s i = Some e \<and> expired_at ?now e}"
    and a1: "\<forall>i e. lookup s i = Some e \<longrightarrow>
           (if expired_at ?now e
            then \<exists>e'. lookup s1 i = Some e' \<and> timeout_refund e e'
            else lookup s1 i = Some e)"
    and b1: "\<forall>i. lookup s i = None \<longrightarrow> lookup s1 i = None"
    by auto
  from processTimeouts_spec [of clk s1] assms(2)
  have d2: "distinct ex2"
    and x2: "set ex2 = {i. \<exists>e. lookup s1 i = Some e \<and> expired_at ?now' e}"
    and a2: "\<forall>i e. lookup s1 i = Some e \<longrightarrow>
           (if expired_at ?now' e
            then \<exists>e'. lookup s2 i = Some e' \<and> timeout_refund e e'
            else lookup s2 i = Some e)"
    by auto
  have done1: "\<And>i. i \<in> set ex1 \<Longrightarrow>
      \<exists>e e'. lookup s i = Some e \<and> timeout_refund e e' \<and> lookup s1 i = Some e'
         \<and> lookup s2 i = Some e'"
  proof -
    fix i assume "i \<in> set ex1"
    with x1 obtain e where e: "lookup s i = Some e" "expired_at ?now e" by auto
    with a1 obtain e' where e': "lookup s1 i = Some e'" "timeout_refund e e'" by fastforce
    from timeout_refund_not_expired [OF e'(2)] have "\<not> expired_at ?now' e'" .
    with a2 e'(1) have "lookup s2 i = Some e'" by fastforce
    with e e' show "\<exists>e e'. lookup s i = Some e \<and> timeout_refund e e' \<and> lookup s1 i = Some e'
         \<and> lookup s2 i = Some e'"
      by blast
  qed
  have p1: "set ex1 \<inter> set ex2 = {}"
  proof -
    have "\<And>i. i \<in> set ex1 \<Longrightarrow> i \<notin> set ex2"
    proof
      fix i assume i: "i \<in> set ex1" and "i \<in> set ex2"
      with x2 obtain e1 where e1: "lookup s1 i = Some e1" "expired_at ?now' e1" by auto
      from done1 [OF i] e1(1) obtain e where "timeout_refund e e1" by auto
      from timeout_refund_not_expired [OF this] e1(2) show False by blast
    qed
    then show ?thesis by blast
  qed
  have p3: "ex2 = [] \<and> s2 = s1\<lparr>ticks := Suc (ticks s1)\<rparr>" if same: "?now' = ?now"
  proof -
    have nd: "\<And>i. \<not> due ?now' (s1\<lparr>ticks := Suc (ticks s1)\<rparr>) i"
    proof
      fix i assume "due ?now' (s1\<lparr>ticks := Suc (ticks s1)\<rparr>) i"
      then obtain e1 where e1: "lookup s1 i = Some e1" "expired_at ?now e1"
        using same by (auto simp add: due_def lookup_ticks split: option.splits)
      with b1 obtain e where e: "lookup s i = Some e" by (cases "lookup s i") auto
      show False
      proof (cases "expired_at ?now e")
        case True
        with a1 e obtain e' where "lookup s1 i = Some e'" "timeout_refund e e'" by fastforce
        with e1 timeout_refund_not_expired show False by fastforce
      next
        case False
        with a1 e have "lookup s1 i = Some e" by fastforce
        with e1 False show False by simp
      qed
    qed
    have "processTimeouts clk s1 = (Inr [], s1\<lparr>ticks := Suc (ticks s1)\<rparr>)"
      unfolding processTimeouts_sweep by (rule sweep_noop) (simp add: nd)
    with assms(2) show ?thesis by simp
  qed
  from d1 x1 done1 d2 x2 p1 p3 show ?thesis by blast
qed

text \<open>
  Claim C9, amended. \<open>processTimeouts()\<close> reads its instant from the clock, so two runs in
  a row need not see the same \<open>now\<close>. Both runs return; each refunds exactly the escrows
  that are due at the instant it reads, each once. Every escrow due at the first run's
  instant is refunded by the first run and is left exactly so by the second, which finds it
  in state \<open>refunded\<close>: no id is refunded by both runs. When the second run reads the same
  instant as the first, it refunds nothing, returns no id and leaves every escrow and the
  stored file as they were. When the clock has advanced, the second run refunds the escrows
  that have become due in between.
\<close>

theorem processTimeouts_second_run:
  "\<exists>ex1 s1 ex2 s2.
       processTimeouts clk s = (Inr ex1, s1) \<and> processTimeouts clk s1 = (Inr ex2, s2)
     \<and> distinct ex1
     \<and> set ex1 = {i. \<exists>e. lookup s i = Some e \<and> expired_at (clk (ticks s)) e}
     \<and> (\<forall>i \<in> set ex1. \<exists>e e'. lookup s i = Some e \<and> timeout_refund e e'
            \<and> lookup s1 i = Some e' \<and> lookup s2 i = Some e')
     \<and> distinct ex2
     \<and> set ex2 = {i. \<exists>e. lookup s1 i = Some e \<and> expired_at (clk (ticks s1)) e}
     \<and> set ex1 \<inter> set ex2 = {}
     \<and> (clk (ticks s1) = clk (ticks s)
          \<longrightarrow> ex2 = [] \<and> s2 = s1\<lparr>ticks := Suc (ticks s1)\<rparr>)"
proof -
  from processTimeouts_spec [of clk s] obtain ex1 s1 where
    r1: "processTimeouts clk s = (Inr ex1, s1)" by blast
  from processTimeouts_spec [of clk s1] obtain ex2 s2 where
    r2: "processTimeouts clk s1 = (Inr ex2, s2)" by blast
  from processTimeouts_twice [OF r1 r2] r1 r2 show ?thesis by blast
qed

theorem processTimeouts_second_run_witness:
  "processTimeouts frozen_clock sweep_system0 = (Inr [''esc_02''], swept_system0)
   \<and> processTimeouts frozen_clock swept_system0 = (Inr [], swept_system0\<lparr>ticks := 3\<rparr>)
   \<and> frozen_clock (ticks swept_system0) = frozen_clock (ticks sweep_system0)
   \<and> lookup sweep_system0 ''esc_02'' = Some due0
   \<and> expired_at (frozen_clock (ticks sweep_system0)) due0
   \<and> timeout_refund due0 refunded0
   \<and> lookup swept_system0 ''esc_02'' = Some refunded0
   \<and> lookup (swept_system0\<lparr>ticks := 3\<rparr>) ''esc_02'' = Some refunded0
   \<and> swept_system0\<lparr>ticks := 3\<rparr> = swept_system0\<lparr>ticks := Suc (ticks swept_system0)\<rparr>"
proof -
  have h1: "processTimeouts frozen_clock sweep_system0 = (Inr [''esc_02''], swept_system0)"
    by (simp add: processTimeouts_def refund_def expired_at_def op_defs sweep_defs escrow0_def)
  have h2: "processTimeouts frozen_clock swept_system0 = (Inr [], swept_system0\<lparr>ticks := 3\<rparr>)"
    by (simp add: processTimeouts_def refund_def expired_at_def op_defs sweep_defs escrow0_def)
  have c: "frozen_clock (ticks swept_system0) = frozen_clock (ticks sweep_system0)"
    by (simp add: frozen_clock_def)
  have l: "lookup sweep_system0 ''esc_02'' = Some due0"
    by (simp add: lookup_def sweep_defs)
  have x: "expired_at (frozen_clock (ticks sweep_system0)) due0"
    by (simp add: expired_at_def sweep_defs escrow0_def)
  from processTimeouts_second_run [of frozen_clock sweep_system0]
  obtain ex1 s1 ex2 s2 where
    r1: "processTimeouts frozen_clock sweep_system0 = (Inr ex1, s1)"
    and r2: "processTimeouts frozen_clock s1 = (Inr ex2, s2)"
    and b: "\<forall>i \<in> set ex1. \<exists>e e'. lookup sweep_system0 i = Some e \<and> timeout_refund e e'
            \<and> lookup s1 i = Some e' \<and> lookup s2 i = Some e'"
    and n: "frozen_clock (ticks s1) = frozen_clock (ticks sweep_system0)
          \<longrightarrow> ex2 = [] \<and> s2 = s1\<lparr>ticks := Suc (ticks s1)\<rparr>"
    by blast
  from r1 h1 have e1: "ex1 = [''esc_02'']" and e2: "s1 = swept_system0" by simp_all
  from r2 h2 e2 have e3: "s2 = swept_system0\<lparr>ticks := 3\<rparr>" by simp
  from b e1 obtain e e' where "lookup sweep_system0 ''esc_02'' = Some e" "timeout_refund e e'"
    "lookup s1 ''esc_02'' = Some e'" "lookup s2 ''esc_02'' = Some e'"
    by auto
  with l e2 e3 have t: "timeout_refund due0 e'" and l1: "lookup swept_system0 ''esc_02'' = Some e'"
    and l2: "lookup (swept_system0\<lparr>ticks := 3\<rparr>) ''esc_02'' = Some e'"
    by simp_all
  have "lookup swept_system0 ''esc_02'' = Some refunded0" by (simp add: lookup_def sweep_defs)
  with l1 have e': "e' = refunded0" by simp
  from n c e2 e3 have p3: "swept_system0\<lparr>ticks := 3\<rparr> = swept_system0\<lparr>ticks := Suc (ticks swept_system0)\<rparr>"
    by simp
  from h1 h2 c l x t l1 l2 p3 show ?thesis unfolding e' by blast
qed

theorem processTimeouts_clock_advances_counterexample:
  "lookup sweep_system0 ''esc_03'' = Some edge0 \<and> state edge0 = Funded
   \<and> map_option state (lookup (snd (processTimeouts clock0 sweep_system0)) ''esc_03'')
       = Some Funded
   \<and> fst (processTimeouts clock0 (snd (processTimeouts clock0 sweep_system0)))
       = Inr [''esc_03'']
   \<and> map_option state
        (lookup (snd (processTimeouts clock0 (snd (processTimeouts clock0 sweep_system0))))
           ''esc_03'')
       = Some Refunded"
  by (simp add: processTimeouts_def refund_def expired_at_def op_defs sweep_defs escrow0_def
      clock0_def)

subsection \<open>The approvals of a record\<close>

lemma ok_put: "all_approvals_ok s \<Longrightarrow> approvals_ok e \<Longrightarrow> all_approvals_ok (put k e s)"
proof -
  have "\<And>al. list_all (\<lambda>ke. approvals_ok (snd ke)) al \<Longrightarrow> approvals_ok e
          \<Longrightarrow> list_all (\<lambda>ke. approvals_ok (snd ke)) (AList.update k e al)"
    subgoal for al by (induction al) auto
    done
  then show "all_approvals_ok s \<Longrightarrow> approvals_ok e \<Longrightarrow> all_approvals_ok (put k e s)"
    by (simp add: all_approvals_ok_def put_def)
qed

lemma ok_lookup: "all_approvals_ok s \<Longrightarrow> lookup s k = Some e \<Longrightarrow> approvals_ok e"
proof -
  assume a: "all_approvals_ok s" and l: "lookup s k = Some e"
  from l have "(k, e) \<in> set (escrows s)" by (simp add: lookup_def map_of_SomeD)
  with a have "approvals_ok (snd (k, e))" unfolding all_approvals_ok_def list_all_iff by blast
  then show "approvals_ok e" by simp
qed

lemma ok_saveState: "all_approvals_ok (saveState s) = all_approvals_ok s"
  by (simp add: all_approvals_ok_def saveState_def)

lemma ok_ticks: "all_approvals_ok (s\<lparr>ticks := n\<rparr>) = all_approvals_ok s"
  by (simp add: all_approvals_ok_def)

lemmas ok_simps = ok_put ok_saveState ok_ticks approvals_ok_def Date_now_def Let_def

lemma create_ok: "all_approvals_ok s \<Longrightarrow> all_approvals_ok (snd (create clk hex p s))"
  by (cases "c_conditions p") (simp_all add: create_def new_escrow_def ok_simps)

lemma fund_ok: "all_approvals_ok s \<Longrightarrow> all_approvals_ok (snd (fund clk escrowId tx s))"
  by (auto simp add: fund_def ok_saveState ok_ticks Date_now_def Let_def approvals_ok_def
      split: option.splits dest: ok_lookup intro!: ok_put)

lemma release_pres: "all_approvals_ok s \<Longrightarrow> all_approvals_ok (snd (release clk escrowId rsn s))"
  by (auto simp add: release_def ok_saveState ok_ticks Date_now_def Let_def approvals_ok_def
      split: option.splits dest: ok_lookup intro!: ok_put)

lemma refund_pres: "all_approvals_ok s \<Longrightarrow> all_approvals_ok (snd (refund clk escrowId rsn s))"
  by (auto simp add: refund_def ok_saveState ok_ticks Date_now_def Let_def approvals_ok_def
      split: option.splits dest: ok_lookup intro!: ok_put)

lemma dispute_pres: "all_approvals_ok s \<Longrightarrow> all_approvals_ok (snd (dispute clk escrowId who rsn s))"
  by (auto simp add: dispute_def ok_saveState ok_ticks Date_now_def Let_def approvals_ok_def
      split: option.splits dest: ok_lookup intro!: ok_put)

lemma approve_pres:
  assumes "all_approvals_ok s" and "approver_is_party (Approve escrowId approverId) s"
  shows "all_approvals_ok (snd (approve clk escrowId approverId s))"
proof (cases "lookup s escrowId")
  case None
  with assms(1) show ?thesis by (simp add: approve_def)
next
  case (Some e)
  from ok_lookup [OF assms(1) Some] have e: "approvals_ok e" .
  from assms(2) Some have p: "approverId = payer e \<or> approverId = payee e" by simp
  from e p have e1: "approvals_ok (e\<lparr>approvals := approvals e @ [approverId]\<rparr>)"
    by (simp add: approvals_ok_def)
  show ?thesis using Some assms(1) e e1
    by (auto simp add: approve_def ok_saveState ok_ticks Date_now_def Let_def approvals_ok_def
        intro!: ok_put)
qed

lemma submitDelivery_pres:
  assumes "all_approvals_ok s"
  shows "all_approvals_ok (snd (submitDelivery clk escrowId prf s))"
proof (cases "lookup s escrowId")
  case None
  with assms show ?thesis by (simp add: submitDelivery_def)
next
  case (Some e)
  from ok_lookup [OF assms Some] have e: "approvals_ok e" .
  show ?thesis
  proof (cases "prf")
    case (Obj p)
    show ?thesis
    proof (cases "state e = Locked")
      case True
      let ?s1 = "s\<lparr>ticks := Suc (ticks s)\<rparr>"
      let ?e1 = "e\<lparr>deliveryProof := Some \<lparr> submittedBy = or_else (p_submittedBy p) (payee e),
                     timestamp = clk (ticks s), data = p_data p,
                     signature = or_null (p_signature p) \<rparr>\<rparr>"
      have "approvals_ok ?e1" using e by (simp add: approvals_ok_def)
      then have s2: "all_approvals_ok (put escrowId ?e1 ?s1)"
        using assms by (simp add: ok_put ok_ticks)
      from release_pres [OF s2, of clk escrowId "Some ''automatic - delivery confirmed''"]
      have "\<And>r s3. release clk escrowId (Some ''automatic - delivery confirmed'')
               (put escrowId ?e1 ?s1) = (r, s3) \<Longrightarrow> all_approvals_ok s3"
        by simp
      with s2 show ?thesis using Some True Obj
        by (auto simp add: submitDelivery_def Date_now_def Let_def ok_saveState
            split: prod.splits sum.splits)
    next
      case False
      with Some assms show ?thesis by (simp add: submitDelivery_def)
    qed
  qed (use Some assms in \<open>simp_all add: submitDelivery_def\<close>)
qed

lemma release_result_ok:
  "all_approvals_ok s \<Longrightarrow> release clk escrowId rsn s = (Inr e1, s1) \<Longrightarrow> approvals_ok e1"
  by (auto simp add: release_def Date_now_def Let_def approvals_ok_def
      split: option.splits if_splits dest: ok_lookup)

lemma refund_result_ok:
  "all_approvals_ok s \<Longrightarrow> refund clk escrowId rsn s = (Inr e1, s1) \<Longrightarrow> approvals_ok e1"
  by (auto simp add: refund_def Date_now_def Let_def approvals_ok_def
      split: option.splits if_splits dest: ok_lookup)

lemma resolveDispute_pres:
  assumes "all_approvals_ok s"
  shows "all_approvals_ok (snd (resolveDispute clk escrowId decision arb s))"
proof (cases "lookup s escrowId")
  case None
  with assms show ?thesis by (simp add: resolveDispute_def)
next
  case (Some e)
  have arb: "\<And>e1 s1. approvals_ok e1 \<Longrightarrow> all_approvals_ok s1 \<Longrightarrow>
      all_approvals_ok (saveState (put escrowId (e1\<lparr>metadata := (metadata e1)\<lparr>arbiter := Some arb\<rparr>\<rparr>) s1))"
    by (simp add: ok_saveState ok_put approvals_ok_def)
  show ?thesis
    using Some assms release_pres [OF assms, of clk escrowId "Some (''arbiter decision by '' @ arb)"]
      refund_pres [OF assms, of clk escrowId "Some (''arbiter decision by '' @ arb)"]
      release_result_ok [OF assms, of clk escrowId "Some (''arbiter decision by '' @ arb)"]
      refund_result_ok [OF assms, of clk escrowId "Some (''arbiter decision by '' @ arb)"]
    by (auto simp add: resolveDispute_def Let_def arb split: prod.splits sum.splits)
qed

lemma sweep_pres:
  "all_approvals_ok s \<Longrightarrow> all_approvals_ok (snd (sweep clk now ids acc s))"
proof (induction ids arbitrary: acc s)
  case Nil
  then show ?case by simp
next
  case (Cons a ids)
  from refund_pres [OF Cons.prems, of clk a "Some ''automatic timeout''"]
  have "\<And>r s1. refund clk a (Some ''automatic timeout'') s = (r, s1) \<Longrightarrow> all_approvals_ok s1"
    by simp
  with Cons show ?case
    by (auto split: option.splits prod.splits sum.splits)
qed

lemma processTimeouts_pres:
  "all_approvals_ok s \<Longrightarrow> all_approvals_ok (snd (processTimeouts clk s))"
  unfolding processTimeouts_sweep by (rule sweep_pres) (simp add: ok_ticks)

text \<open>
  Claim C3, amended. \<open>approve(id, approverId)\<close> does not check who approves: it appends any
  \<open>approverId\<close> that is not yet in the list. So "the approvals of every record are among
  its payer and payee" is preserved by every operation provided each \<open>approve\<close> call names
  the payer or the payee of its escrow; every other operation preserves it unconditionally.
\<close>

theorem approvals_invariant:
  assumes "all_approvals_ok s" and "approver_is_party op s"
  shows "all_approvals_ok (exec clk op s)"
proof (cases op)
  case (Approve escrowId approverId)
  with assms approve_pres show ?thesis by simp
qed (use assms in \<open>simp_all add: create_ok fund_ok submitDelivery_pres release_pres refund_pres
      dispute_pres resolveDispute_pres processTimeouts_pres\<close>)

theorem approvals_invariant_witness:
  "all_approvals_ok (system_of funded0)
   \<and> approver_is_party (Approve ''esc_01'' ''alice'') (system_of funded0)
   \<and> all_approvals_ok (exec clock0 (Approve ''esc_01'' ''alice'') (system_of funded0))
   \<and> map_option approvals
        (lookup (exec clock0 (Approve ''esc_01'' ''alice'') (system_of funded0)) ''esc_01'')
       = Some [''alice'']"
proof -
  have a: "all_approvals_ok (system_of funded0)"
    by (simp add: all_approvals_ok_def approvals_ok_def system_of_def funded0_def escrow0_def)
  have b: "approver_is_party (Approve ''esc_01'' ''alice'') (system_of funded0)"
    by (simp add: lookup_def system_of_def funded0_def escrow0_def)
  have c: "map_option approvals
        (lookup (exec clock0 (Approve ''esc_01'' ''alice'') (system_of funded0)) ''esc_01'')
       = Some [''alice'']"
    by (simp add: approve_def op_defs system_of_def funded0_def escrow0_def)
  from a b c approvals_invariant [OF a b, of clock0] show ?thesis by simp
qed

theorem approve_outsider_counterexample:
  "all_approvals_ok (system_of funded0)
   \<and> payer funded0 = ''alice'' \<and> payee funded0 = ''bob''
   \<and> fst (approve clock0 ''esc_01'' ''mallory'' (system_of funded0))
       = Inr (funded0\<lparr>approvals := [''mallory'']\<rparr>)
   \<and> lookup (snd (approve clock0 ''esc_01'' ''mallory'' (system_of funded0))) ''esc_01''
       = Some (funded0\<lparr>approvals := [''mallory'']\<rparr>)
   \<and> \<not> approvals_ok (funded0\<lparr>approvals := [''mallory'']\<rparr>)
   \<and> \<not> all_approvals_ok (snd (approve clock0 ''esc_01'' ''mallory'' (system_of funded0)))"
  by (simp add: approve_def all_approvals_ok_def approvals_ok_def op_defs system_of_def
      funded0_def escrow0_def)

end
